theory Spec2Isabelle
  imports Main "HOL-Library.Sublist"
begin

section \<open>Source locations and errors\<close>

text \<open>
  The visitor of \<^verbatim>\<open>handlebars-node-visitors.ts\<close> walks a Handlebars syntax tree and
  drives an HTML tokenizer. Every node carries a location; the visitor reads only
  \<^verbatim>\<open>loc.start.line\<close> and \<^verbatim>\<open>loc.start.column\<close>.
\<close>

record position =
  line :: nat
  column :: nat

record loc =
  start :: position
  finish :: position

text \<open>
  A handler of the visitor ends in one of three ways besides returning: it executes one of its
  own \<^verbatim>\<open>throw new Error(message)\<close> statements, it reads a property of \<^verbatim>\<open>null\<close> or
  \<^verbatim>\<open>undefined\<close> (the runtime's TypeError), or an abstract method of the subclass throws a
  value of its own, which passes through unchanged.
\<close>

datatype 'x error =
    Error string
  | TypeError
  | Thrown 'x

text \<open>The decimal rendering of a line number inside a template string.\<close>

definition digit_char :: "nat \<Rightarrow> char" where
  "digit_char d = char_of (48 + d)"

fun show_nat :: "nat \<Rightarrow> string" where
  "show_nat n = (if n < 10 then [digit_char n] else show_nat (n div 10) @ [digit_char (n mod 10)])"

declare show_nat.simps [simp del]

section \<open>Paths\<close>

text \<open>
  \<^verbatim>\<open>AST.Path\<close>. The field \<open>parts\<close> is optional in the model because the object that
  \<^verbatim>\<open>PathExpression\<close> builds can hold \<^verbatim>\<open>undefined\<close> there.
\<close>

record path =
  original :: string
  data :: bool
  parts :: "string list option"
  depth :: nat
  loc :: loc

text \<open>\<^verbatim>\<open>Array.prototype.join\<close> on strings.\<close>

fun join :: "string \<Rightarrow> string list \<Rightarrow> string" where
  "join sep [] = []"
| "join sep [x] = x"
| "join sep (x # y # ys) = x @ sep @ join sep (y # ys)"

text \<open>The three template strings of \<^verbatim>\<open>PathExpression\<close>.\<close>

definition current_context_message :: "string \<Rightarrow> nat \<Rightarrow> string" where
  "current_context_message text n =
     ''Using '' @ [CHR 0x22] @ ''./'' @ [CHR 0x22] @
     '' is not supported in Glimmer and unnecessary: '' @ [CHR 0x22] @ text @ [CHR 0x22] @
     '' on line '' @ show_nat n @ ''.''"

definition parent_context_message :: "string \<Rightarrow> nat \<Rightarrow> string" where
  "parent_context_message text n =
     ''Changing context using '' @ [CHR 0x22] @ ''../'' @ [CHR 0x22] @
     '' is not supported in Glimmer: '' @ [CHR 0x22] @ text @ [CHR 0x22] @
     '' on line '' @ show_nat n @ ''.''"

definition mixed_separator_message :: "string \<Rightarrow> nat \<Rightarrow> string" where
  "mixed_separator_message text n =
     ''Mixing '' @ [CHR 0x27] @ ''.'' @ [CHR 0x27] @ '' and '' @ [CHR 0x27] @ ''/'' @ [CHR 0x27] @
     '' in paths is not supported in Glimmer; use only '' @ [CHR 0x27] @ ''.'' @ [CHR 0x27] @
     '' to separate property paths: '' @ [CHR 0x22] @ text @ [CHR 0x22] @
     '' on line '' @ show_nat n @ ''.''"

text \<open>
  \<^verbatim>\<open>PathExpression(path)\<close>. The function declares \<^verbatim>\<open>let parts;\<close> at its top and, inside
  the block of the \<^verbatim>\<open>if\<close>, a second \<^verbatim>\<open>let parts = [ path.parts.join('/') ]\<close>. The second
  declaration is block-scoped: it is evaluated (and reads \<^verbatim>\<open>path.parts\<close>, which fails on
  \<^verbatim>\<open>undefined\<close>), bound to \<open>inner_parts\<close> below, and gone at the closing brace. The object
  literal of the \<^verbatim>\<open>return\<close> reads the outer variable, which was never assigned.
\<close>

definition PathExpression :: "path \<Rightarrow> 'x error + path" where
  "PathExpression p =
     (let outer_parts = None in
      if CHR ''/'' \<in> set (original p) then
        if take 2 (original p) = ''./'' then
          Inl (Error (current_context_message (original p) (line (start (loc p)))))
        else if take 3 (original p) = ''../'' then
          Inl (Error (parent_context_message (original p) (line (start (loc p)))))
        else if CHR ''.'' \<in> set (original p) then
          Inl (Error (mixed_separator_message (original p) (line (start (loc p)))))
        else
          (case parts p of
             None \<Rightarrow> Inl TypeError
           | Some ps \<Rightarrow>
               (let inner_parts = [join ''/'' ps] in
                Inr \<lparr>original = original p, data = data p, parts = outer_parts, depth = 0,
                     loc = loc p\<rparr>))
      else
        Inr \<lparr>original = original p, data = data p, parts = outer_parts, depth = 0, loc = loc p\<rparr>)"

section \<open>Calls\<close>

text \<open>
  \<^verbatim>\<open>AST.Hash\<close> and \<^verbatim>\<open>AST.Call\<close>. Parameters are opaque to this file (only the abstract
  \<^verbatim>\<open>acceptParam\<close> looks inside them), so their type is a variable. A call is an extensible
  record: \<^verbatim>\<open>acceptCall<T extends AST.Call>\<close> keeps every other field of its argument.
  \<^verbatim>\<open>params\<close> and \<^verbatim>\<open>hash\<close> may be absent on a raw node, and the location of the
  synthesized hash is \<^verbatim>\<open>null\<close>.
\<close>

record 'p hash_pair =
  key :: string
  pair_value :: 'p

record 'p hash =
  pairs :: "'p hash_pair list"
  hash_loc :: "loc option"

record 'p call =
  path :: path
  params :: "'p list option"
  hash :: "'p hash option"

record 'p mustache = "'p call" +
  escaped :: bool
  mustache_loc :: loc

record 'n raw_program =
  body :: "'n list"
  blockParams :: "string list"
  program_loc :: loc

record ('p, 'n) block = "'p call" +
  program :: "'n raw_program option"
  inverse_program :: "'n raw_program option"
  block_loc :: loc

record 'p sub_expression = "'p call" +
  sexpr_loc :: loc

record 'p partial =
  partial_name :: path
  partial_params :: "'p list"
  partial_hash :: "'p hash option"
  indent :: string
  partial_loc :: loc

record comment =
  comment_value :: string
  comment_loc :: loc

record content =
  content_original :: string
  content_value :: string
  rightStripped :: bool
  leftStripped :: bool
  content_loc :: loc

text \<open>
  An abstract method of the subclass runs with the whole visitor at hand and may throw: it is
  a function from the visitor's state to a thrown value or a result with the new state.
  \<open>map_accept\<close> is \<^verbatim>\<open>node.params.map(p => this.acceptParam(p))\<close>, left to right.
\<close>

fun map_accept :: "('p \<Rightarrow> 's \<Rightarrow> 'x + 'p \<times> 's) \<Rightarrow> 'p list \<Rightarrow> 's \<Rightarrow> 'x + 'p list \<times> 's" where
  "map_accept f [] s = Inr ([], s)"
| "map_accept f (p # ps) s =
     (case f p s of
        Inl x \<Rightarrow> Inl x
      | Inr (p', s1) \<Rightarrow>
          (case map_accept f ps s1 of
             Inl x \<Rightarrow> Inl x
           | Inr (ps', s2) \<Rightarrow> Inr (p' # ps', s2)))"

text \<open>\<^verbatim>\<open>Hash(hash)\<close>: every pair keeps its key and has its value visited.\<close>

fun map_pairs ::
  "('p \<Rightarrow> 's \<Rightarrow> 'x + 'p \<times> 's) \<Rightarrow> 'p hash_pair list \<Rightarrow> 's \<Rightarrow> 'x + 'p hash_pair list \<times> 's" where
  "map_pairs f [] s = Inr ([], s)"
| "map_pairs f (pr # prs) s =
     (case f (pair_value pr) s of
        Inl x \<Rightarrow> Inl x
      | Inr (v, s1) \<Rightarrow>
          (case map_pairs f prs s1 of
             Inl x \<Rightarrow> Inl x
           | Inr (prs', s2) \<Rightarrow> Inr (pr\<lparr>pair_value := v\<rparr> # prs', s2)))"

definition Hash ::
  "('p \<Rightarrow> 's \<Rightarrow> 'x + 'p \<times> 's) \<Rightarrow> 'p hash \<Rightarrow> 's \<Rightarrow> 'x error + 'p hash \<times> 's" where
  "Hash acceptParam h s =
     (case map_pairs acceptParam (pairs h) s of
        Inl x \<Rightarrow> Inl (Thrown x)
      | Inr (prs, s1) \<Rightarrow> Inr (h\<lparr>pairs := prs\<rparr>, s1))"

text \<open>
  \<^verbatim>\<open>acceptCall(node)\<close>. The generic \<^verbatim>\<open>acceptParam<T>\<close> is used at two types, on a
  parameter and on the hash, hence the two arguments \<open>acceptParam\<close> and \<open>acceptHash\<close>.
\<close>

definition acceptCall ::
  "('p \<Rightarrow> 's \<Rightarrow> 'x + 'p \<times> 's) \<Rightarrow> ('p hash \<Rightarrow> 's \<Rightarrow> 'x + 'p hash \<times> 's) \<Rightarrow>
   ('p, 'm) call_scheme \<Rightarrow> 's \<Rightarrow> 'x error + ('p, 'm) call_scheme \<times> 's" where
  "acceptCall acceptParam acceptHash node s =
     (case PathExpression (path node) of
        Inl e \<Rightarrow> Inl e
      | Inr path' \<Rightarrow>
          (case (case params node of
                   Some ps \<Rightarrow> map_accept acceptParam ps s
                 | None \<Rightarrow> Inr ([], s)) of
             Inl x \<Rightarrow> Inl (Thrown x)
           | Inr (params', s1) \<Rightarrow>
               (case (case hash node of
                        Some h \<Rightarrow> acceptHash h s1
                      | None \<Rightarrow> Inr (\<lparr>pairs = [], hash_loc = None\<rparr>, s1)) of
                  Inl x \<Rightarrow> Inl (Thrown x)
                | Inr (hash', s2) \<Rightarrow>
                    Inr (node\<lparr>path := path', params := Some params', hash := Some hash'\<rparr>, s2))))"

section \<open>The visitor's state\<close>

text \<open>
  The nodes this file builds. A scope node (\<^verbatim>\<open>Node.Program\<close>) is mutable and shared: it is
  on the parent stack while a \<^verbatim>\<open>Block\<close> node already refers to it. Scope nodes therefore
  live in a store and are named by their address; everything else is a value.
\<close>

type_synonym addr = nat

record 'p block_node =
  bn_path :: path
  bn_params :: "'p list option"
  bn_hash :: "'p hash option"
  bn_program :: "addr option"
  bn_inverse :: "addr option"
  bn_loc :: loc

datatype 'p statement =
    MustacheNode "'p mustache"
  | BlockNode "'p block_node"
  | PartialNode "'p partial"

datatype source_comment = SourceComment comment

datatype 'p sexpr = Sexpr "'p sub_expression"

record 'p program_node =
  node_blockParams :: "string list"
  node_loc :: loc
  children :: "'p statement list"

text \<open>What the tokenizer's event handlers keep: the open elements, the tag and the attribute
  being read, and the text of the comment being read.\<close>

record element =
  el_id :: nat
  tag :: string
  el_loc :: loc

record 'p attribute =
  attr_name :: string
  attr_parts :: "'p mustache list"
  isQuoted :: bool

record 'p tag_token =
  tag_name :: string
  modifiers :: "'p mustache list"
  attributes :: "'p attribute list"

text \<open>
  The state of one parse: the tokenizer's \<^verbatim>\<open>state\<close>, \<^verbatim>\<open>line\<close> and \<^verbatim>\<open>column\<close>; the
  visitor's \<^verbatim>\<open>parentStack\<close>; the inherited \<^verbatim>\<open>elementStack\<close>, current tag, current
  attribute and comment text; and the store of scope nodes. The tokenizer's state is the
  string the source compares it with.
\<close>

record 'p visitor =
  tok_state :: string
  tok_line :: nat
  tok_column :: nat
  parentStack :: "addr list"
  elementStack :: "element list"
  currentTag :: "'p tag_token"
  currentAttribute :: "'p attribute option"
  commentData :: string
  heap :: "'p program_node list"

text \<open>
  Modelled from the spec: \<^verbatim>\<open>Stack.push\<close> of \<^verbatim>\<open>glimmer-util\<close>, which is not among the
  sources. A stack is a list with its top first.
\<close>

definition push :: "'a \<Rightarrow> 'a list \<Rightarrow> 'a list" where
  "push x st = x # st"

text \<open>
  Modelled from the spec: \<^verbatim>\<open>Stack.current\<close> of \<^verbatim>\<open>glimmer-util\<close>, which is not among the
  sources: the top of the stack, or \<^verbatim>\<open>null\<close> when nothing is on it.
\<close>

definition current :: "'a list \<Rightarrow> 'a option" where
  "current st = (case st of [] \<Rightarrow> None | x # _ \<Rightarrow> Some x)"

text \<open>\<^verbatim>\<open>currentParent()\<close>.\<close>

definition currentParent :: "'p visitor \<Rightarrow> addr option" where
  "currentParent s = current (parentStack s)"

text \<open>
  Modelled from the spec: the builder \<^verbatim>\<open>hbs.program\<close> of \<^verbatim>\<open>../builders\<close>, which is not
  among the sources. It constructs the normalized scope: a fresh scope node, here at the next
  free address of the store, without children (the raw scope it is given has no statement or
  had its body replaced by the empty one).
\<close>

definition hbs_program :: "'n raw_program \<Rightarrow> 'p visitor \<Rightarrow> addr \<times> 'p visitor" where
  "hbs_program raw s =
     (length (heap s),
      s\<lparr>heap := heap s @
           [\<lparr>node_blockParams = blockParams raw, node_loc = program_loc raw, children = []\<rparr>]\<rparr>)"

text \<open>
  Modelled from the spec: the builder \<^verbatim>\<open>hbs.mustache\<close> of \<^verbatim>\<open>../builders\<close>, which is not
  among the sources. It builds the mustache node of a normalized call; the node is the call.
  The other builders (\<^verbatim>\<open>hbs.comment\<close>, \<^verbatim>\<open>hbs.partial\<close>, \<^verbatim>\<open>hbs.sexpr\<close>, \<^verbatim>\<open>hbs.path\<close>,
  \<^verbatim>\<open>hbs.args\<close> and the constructor of \<^verbatim>\<open>Node.Block\<close>) are the constructors of the node
  types above.
\<close>

definition hbs_mustache :: "'p mustache \<Rightarrow> 'p mustache" where
  "hbs_mustache c = c"

text \<open>
  Modelled from the spec: \<^verbatim>\<open>appendChild\<close>, inherited from \<^verbatim>\<open>TokenizerEventHandlers\<close>,
  which is not among the sources. It appends a statement as the last child of the current
  parent. Without a current parent the call reads a property of \<^verbatim>\<open>null\<close>, a TypeError (so
  does, in the model, an address that the store does not hold; \<open>hbs_program\<close> hands out
  none).
\<close>

definition appendChild :: "'p statement \<Rightarrow> 'p visitor \<Rightarrow> 'x error + 'p visitor" where
  "appendChild stmt s =
     (case currentParent s of
        None \<Rightarrow> Inl TypeError
      | Some a \<Rightarrow>
          if a < length (heap s) then
            Inr (s\<lparr>heap := (heap s)[a := (heap s ! a)\<lparr>children := children (heap s ! a) @ [stmt]\<rparr>]\<rparr>)
          else Inl TypeError)"

text \<open>
  Modelled from the spec: \<^verbatim>\<open>appendToCommentData\<close>, inherited from
  \<^verbatim>\<open>TokenizerEventHandlers\<close>, which is not among the sources. It emits text into the open
  comment's accumulated text.
\<close>

definition appendToCommentData :: "string \<Rightarrow> 'p visitor \<Rightarrow> 'p visitor" where
  "appendToCommentData text s = s\<lparr>commentData := commentData s @ text\<rparr>"

text \<open>
  Modelled from the spec: \<^verbatim>\<open>currentNodeAs<Tag>().appendModifier\<close>, of
  \<^verbatim>\<open>TokenizerEventHandlers\<close> and its class \<^verbatim>\<open>Tag\<close>, which are not among the sources. It
  attaches a mustache as a tag modifier on the currently open tag.
\<close>

definition appendModifier :: "'p mustache \<Rightarrow> 'p visitor \<Rightarrow> 'p visitor" where
  "appendModifier m s = s\<lparr>currentTag := (currentTag s)\<lparr>modifiers := modifiers (currentTag s) @ [m]\<rparr>\<rparr>"

text \<open>
  Modelled from the spec: \<^verbatim>\<open>beginAttributeValue\<close>, inherited from
  \<^verbatim>\<open>TokenizerEventHandlers\<close>, which is not among the sources. It begins the value of the
  attribute in progress, quoted or not; the value that begins is empty. Without an attribute
  in progress the call reads a property of \<^verbatim>\<open>null\<close>.
\<close>

definition beginAttributeValue :: "bool \<Rightarrow> 'p visitor \<Rightarrow> 'x error + 'p visitor" where
  "beginAttributeValue quoted s =
     (case currentAttribute s of
        None \<Rightarrow> Inl TypeError
      | Some a \<Rightarrow> Inr (s\<lparr>currentAttribute := Some (a\<lparr>attr_parts := [], isQuoted := quoted\<rparr>)\<rparr>))"

text \<open>
  Modelled from the spec: \<^verbatim>\<open>finishAttributeValue\<close>, inherited from
  \<^verbatim>\<open>TokenizerEventHandlers\<close>, which is not among the sources. It finalizes the attribute in
  progress: the attribute becomes the last attribute of the open tag, and no attribute is
  open any more.
\<close>

definition finishAttributeValue :: "'p visitor \<Rightarrow> 'x error + 'p visitor" where
  "finishAttributeValue s =
     (case currentAttribute s of
        None \<Rightarrow> Inl TypeError
      | Some a \<Rightarrow>
          Inr (s\<lparr>currentTag := (currentTag s)\<lparr>attributes := attributes (currentTag s) @ [a]\<rparr>,
                 currentAttribute := None\<rparr>))"

text \<open>
  Modelled from the spec: \<^verbatim>\<open>currentAttribute.pushMustache\<close>, of
  \<^verbatim>\<open>TokenizerEventHandlers\<close> and its class \<^verbatim>\<open>Attribute\<close>, which are not among the
  sources. It appends a mustache into the value fragments of the currently open attribute.
\<close>

definition pushMustache :: "'p mustache \<Rightarrow> 'p visitor \<Rightarrow> 'x error + 'p visitor" where
  "pushMustache m s =
     (case currentAttribute s of
        None \<Rightarrow> Inl TypeError
      | Some a \<Rightarrow> Inr (s\<lparr>currentAttribute := Some (a\<lparr>attr_parts := attr_parts a @ [m]\<rparr>)\<rparr>))"

section \<open>Scopes\<close>

text \<open>\<^verbatim>\<open>rawProgram.body.forEach(n => this.acceptNode(n))\<close>: in order, until one throws.\<close>

fun forEach :: "('n \<Rightarrow> 's \<Rightarrow> 'x + 's) \<Rightarrow> 'n list \<Rightarrow> 's \<Rightarrow> 'x + 's" where
  "forEach f [] s = Inr s"
| "forEach f (n # ns) s = (case f n s of Inl x \<Rightarrow> Inl x | Inr s1 \<Rightarrow> forEach f ns s1)"

definition unclosed_element_message :: "string \<Rightarrow> nat \<Rightarrow> string" where
  "unclosed_element_message t n =
     ''Unclosed element '' @ [CHR 0x27] @ t @ [CHR 0x27] @ '' (on line '' @ show_nat n @ '').''"

text \<open>
  \<^verbatim>\<open>Program(rawProgram)\<close>. \<^verbatim>\<open>topNode !== newTopNode\<close> compares two references (or
  \<^verbatim>\<open>null\<close>): the identities \<open>el_id\<close> of the elements. When they differ the message reads
  \<^verbatim>\<open>newTopNode.tag\<close>, which is a TypeError when no element is open. The function has no
  statement after the \<^verbatim>\<open>forEach\<close> that touches \<^verbatim>\<open>parentStack\<close>.
\<close>

definition Program ::
  "('n \<Rightarrow> 'p visitor \<Rightarrow> 'x + 'p visitor) \<Rightarrow> 'n raw_program \<Rightarrow> 'p visitor \<Rightarrow>
   'x error + addr \<times> 'p visitor" where
  "Program acceptNode rawProgram s =
     (if body rawProgram = [] then Inr (hbs_program rawProgram s)
      else
        (let (node, s1) = hbs_program (rawProgram\<lparr>body := []\<rparr>) s;
             s2 = s1\<lparr>parentStack := push node (parentStack s1)\<rparr>;
             topNode = current (elementStack s2)
         in case forEach acceptNode (body rawProgram) s2 of
              Inl x \<Rightarrow> Inl (Thrown x)
            | Inr s3 \<Rightarrow>
                (let newTopNode = current (elementStack s3) in
                 if map_option el_id topNode \<noteq> map_option el_id newTopNode then
                   (case newTopNode of
                      None \<Rightarrow> Inl TypeError
                    | Some e \<Rightarrow>
                        Inl (Error (unclosed_element_message (tag e) (line (start (el_loc e))))))
                 else Inr (node, s3))))"

text \<open>\<^verbatim>\<open>block.program && this.Program(block.program)\<close>.\<close>

definition Program_opt ::
  "('n \<Rightarrow> 'p visitor \<Rightarrow> 'x + 'p visitor) \<Rightarrow> 'n raw_program option \<Rightarrow> 'p visitor \<Rightarrow>
   'x error + addr option \<times> 'p visitor" where
  "Program_opt acceptNode raw s =
     (case raw of
        None \<Rightarrow> Inr (None, s)
      | Some r \<Rightarrow>
          (case Program acceptNode r s of
             Inl e \<Rightarrow> Inl e
           | Inr (node, s1) \<Rightarrow> Inr (Some node, s1)))"

section \<open>Statements\<close>

definition block_context_message :: string where
  "block_context_message = ''A block may only be used inside an HTML element or another block.''"

text \<open>
  \<^verbatim>\<open>BlockStatement(block)\<close>. The result is the node, or \<^verbatim>\<open>undefined\<close> from the bare
  \<^verbatim>\<open>return\<close> of the comment case. \<^verbatim>\<open>sourceForMustache\<close> is abstract and gives the source
  text of a node.
\<close>

definition BlockStatement ::
  "('n \<Rightarrow> 'p visitor \<Rightarrow> 'x + 'p visitor) \<Rightarrow>
   ('p \<Rightarrow> 'p visitor \<Rightarrow> 'x + 'p \<times> 'p visitor) \<Rightarrow>
   ('p hash \<Rightarrow> 'p visitor \<Rightarrow> 'x + 'p hash \<times> 'p visitor) \<Rightarrow>
   (('p, 'n) block \<Rightarrow> string) \<Rightarrow>
   ('p, 'n) block \<Rightarrow> 'p visitor \<Rightarrow> 'x error + 'p block_node option \<times> 'p visitor" where
  "BlockStatement acceptNode acceptParam acceptHash sourceForMustache blk s =
     (if tok_state s = ''comment'' then
        Inr (None, appendToCommentData (''{{'' @ sourceForMustache blk @ ''}}'') s)
      else if tok_state s \<noteq> ''comment'' \<and> tok_state s \<noteq> ''data'' \<and> tok_state s \<noteq> ''beforeData'' then
        Inl (Error block_context_message)
      else
        (case acceptCall acceptParam acceptHash blk s of
           Inl e \<Rightarrow> Inl e
         | Inr (c, s1) \<Rightarrow>
             (case Program_opt acceptNode (program blk) s1 of
                Inl e \<Rightarrow> Inl e
              | Inr (program_node, s2) \<Rightarrow>
                  (case Program_opt acceptNode (inverse_program blk) s2 of
                     Inl e \<Rightarrow> Inl e
                   | Inr (inverse_node, s3) \<Rightarrow>
                       (let node = \<lparr>bn_path = path c, bn_params = params c, bn_hash = hash c,
                                    bn_program = program_node, bn_inverse = inverse_node, bn_loc = block_loc blk\<rparr>
                        in case appendChild (BlockNode node) s3 of
                             Inl e \<Rightarrow> Inl e
                           | Inr s4 \<Rightarrow> Inr (Some node, s4))))))"

text \<open>
  The methods that \<^verbatim>\<open>MustacheStatement\<close> calls on what it inherits from
  \<^verbatim>\<open>TokenizerEventHandlers\<close>, as one value, so that what the handler does with them can
  be told apart from what they do.
\<close>

record ('p, 'x) handlers =
  h_appendChild :: "'p statement \<Rightarrow> 'p visitor \<Rightarrow> 'x error + 'p visitor"
  h_appendToCommentData :: "string \<Rightarrow> 'p visitor \<Rightarrow> 'p visitor"
  h_appendModifier :: "'p mustache \<Rightarrow> 'p visitor \<Rightarrow> 'p visitor"
  h_beginAttributeValue :: "bool \<Rightarrow> 'p visitor \<Rightarrow> 'x error + 'p visitor"
  h_finishAttributeValue :: "'p visitor \<Rightarrow> 'x error + 'p visitor"
  h_pushMustache :: "'p mustache \<Rightarrow> 'p visitor \<Rightarrow> 'x error + 'p visitor"

text \<open>
  Modelled from the spec: the inherited methods of \<^verbatim>\<open>TokenizerEventHandlers\<close>, which is not
  among the sources, each as modelled above.
\<close>

definition TokenizerEventHandlers :: "('p, 'x) handlers" where
  "TokenizerEventHandlers =
     \<lparr>h_appendChild = appendChild, h_appendToCommentData = appendToCommentData,
      h_appendModifier = appendModifier, h_beginAttributeValue = beginAttributeValue,
      h_finishAttributeValue = finishAttributeValue, h_pushMustache = pushMustache\<rparr>"

text \<open>
  \<^verbatim>\<open>MustacheStatement(rawMustache)\<close>, with the inherited methods as the argument \<open>H\<close>. The
  \<^verbatim>\<open>switch\<close> reads the tokenizer's state after the call has been normalized; the case
  \<^verbatim>\<open>beforeAttributeValue\<close> sets the state and falls through to the attribute-value cases.
\<close>

definition MustacheStatement_with ::
  "('p, 'x) handlers \<Rightarrow>
   ('p \<Rightarrow> 'p visitor \<Rightarrow> 'x + 'p \<times> 'p visitor) \<Rightarrow>
   ('p hash \<Rightarrow> 'p visitor \<Rightarrow> 'x + 'p hash \<times> 'p visitor) \<Rightarrow>
   ('p mustache \<Rightarrow> string) \<Rightarrow>
   'p mustache \<Rightarrow> 'p visitor \<Rightarrow> 'x error + 'p mustache option \<times> 'p visitor" where
  "MustacheStatement_with H acceptParam acceptHash sourceForMustache rawMustache s =
     (if tok_state s = ''comment'' then
        Inr (None, h_appendToCommentData H (''{{'' @ sourceForMustache rawMustache @ ''}}'') s)
      else
        (case acceptCall acceptParam acceptHash rawMustache s of
           Inl e \<Rightarrow> Inl e
         | Inr (c, s1) \<Rightarrow>
             (let m = hbs_mustache c in
              if tok_state s1 = ''tagName'' then
                Inr (Some m, (h_appendModifier H m s1)\<lparr>tok_state := ''beforeAttributeName''\<rparr>)
              else if tok_state s1 = ''beforeAttributeName'' then
                Inr (Some m, h_appendModifier H m s1)
              else if tok_state s1 = ''attributeName'' \<or> tok_state s1 = ''afterAttributeName'' then
                (case h_beginAttributeValue H False s1 of
                   Inl e \<Rightarrow> Inl e
                 | Inr s2 \<Rightarrow>
                     (case h_finishAttributeValue H s2 of
                        Inl e \<Rightarrow> Inl e
                      | Inr s3 \<Rightarrow>
                          Inr (Some m,
                               (h_appendModifier H m s3)\<lparr>tok_state := ''beforeAttributeName''\<rparr>)))
              else if tok_state s1 = ''afterAttributeValueQuoted'' then
                Inr (Some m, (h_appendModifier H m s1)\<lparr>tok_state := ''beforeAttributeName''\<rparr>)
              else if tok_state s1 = ''beforeAttributeValue'' then
                (case h_pushMustache H m (s1\<lparr>tok_state := ''attributeValueUnquoted''\<rparr>) of
                   Inl e \<Rightarrow> Inl e
                 | Inr s2 \<Rightarrow> Inr (Some m, s2))
              else if tok_state s1 = ''attributeValueDoubleQuoted''
                    \<or> tok_state s1 = ''attributeValueSingleQuoted''
                    \<or> tok_state s1 = ''attributeValueUnquoted'' then
                (case h_pushMustache H m s1 of
                   Inl e \<Rightarrow> Inl e
                 | Inr s2 \<Rightarrow> Inr (Some m, s2))
              else
                (case h_appendChild H (MustacheNode m) s1 of
                   Inl e \<Rightarrow> Inl e
                 | Inr s2 \<Rightarrow> Inr (Some m, s2)))))"

text \<open>\<^verbatim>\<open>MustacheStatement\<close> of the visitor: with the methods it inherits.\<close>

definition MustacheStatement ::
  "('p \<Rightarrow> 'p visitor \<Rightarrow> 'x + 'p \<times> 'p visitor) \<Rightarrow>
   ('p hash \<Rightarrow> 'p visitor \<Rightarrow> 'x + 'p hash \<times> 'p visitor) \<Rightarrow>
   ('p mustache \<Rightarrow> string) \<Rightarrow>
   'p mustache \<Rightarrow> 'p visitor \<Rightarrow> 'x error + 'p mustache option \<times> 'p visitor" where
  "MustacheStatement = MustacheStatement_with TokenizerEventHandlers"

text \<open>\<^verbatim>\<open>CommentStatement\<close>, \<^verbatim>\<open>PartialStatement\<close> and \<^verbatim>\<open>SubExpression\<close>.\<close>

definition CommentStatement :: "comment \<Rightarrow> 'p visitor \<Rightarrow> source_comment \<times> 'p visitor" where
  "CommentStatement c s = (SourceComment c, s)"

definition PartialStatement :: "'p partial \<Rightarrow> 'p visitor \<Rightarrow> 'x error + 'p partial \<times> 'p visitor" where
  "PartialStatement prt s =
     (case appendChild (PartialNode prt) s of
        Inl e \<Rightarrow> Inl e
      | Inr s1 \<Rightarrow> Inr (prt, s1))"

definition SubExpression ::
  "('p \<Rightarrow> 's \<Rightarrow> 'x + 'p \<times> 's) \<Rightarrow> ('p hash \<Rightarrow> 's \<Rightarrow> 'x + 'p hash \<times> 's) \<Rightarrow>
   'p sub_expression \<Rightarrow> 's \<Rightarrow> 'x error + 'p sexpr \<times> 's" where
  "SubExpression acceptParam acceptHash sx s =
     (case acceptCall acceptParam acceptHash sx s of
        Inl e \<Rightarrow> Inl e
      | Inr (e, s1) \<Rightarrow> Inr (Sexpr e, s1))"

section \<open>Content\<close>

text \<open>
  \<^verbatim>\<open>String.prototype.split\<close> with a separator string: the pieces between the occurrences of
  the separator, found left to right without overlap. An empty separator splits into
  characters. \<^verbatim>\<open>split(/\n/)\<close> gives the same pieces as \<^verbatim>\<open>split("\n")\<close>.
\<close>

function split :: "string \<Rightarrow> string \<Rightarrow> string list" where
  "split sep str =
     (if sep = [] then map (\<lambda>c. [c]) str
      else if str = [] then [[]]
      else if prefix sep str then [] # split sep (drop (length sep) str)
      else (case split sep (tl str) of
              [] \<Rightarrow> [[hd str]]
            | w # ws \<Rightarrow> (hd str # w) # ws))"
  by pat_completeness auto
termination
  by (relation "measure (\<lambda>(sep, str). length str)") auto

declare split.simps [simp del]

definition newline :: char where
  "newline = CHR 0x0A"

text \<open>\<^verbatim>\<open>leadingNewlineDifference(original, value)\<close>. A split by a non-empty separator has
  at least one piece, so \<^verbatim>\<open>[0]\<close> is \<open>hd\<close>.\<close>

definition leadingNewlineDifference :: "string \<Rightarrow> string \<Rightarrow> nat" where
  "leadingNewlineDifference orig val =
     (if val = [] then length (split [newline] orig) - 1
      else
        (let difference = hd (split val orig);
             lines = split [newline] difference
         in length lines - 1))"

text \<open>
  \<^verbatim>\<open>ContentStatement(content)\<close>. \<^verbatim>\<open>tokenizePart\<close> and \<^verbatim>\<open>flushData\<close> belong to the
  tokenizer, which calls back into the visitor: each is a function on the state that may
  throw. \<open>position_content\<close> is the two assignments before them.
\<close>

definition position_content :: "content \<Rightarrow> 'p visitor \<Rightarrow> 'p visitor" where
  "position_content c s =
     (let changeLines =
            (if rightStripped c then leadingNewlineDifference (content_original c) (content_value c)
             else 0)
      in s\<lparr>tok_line := line (start (content_loc c)) + changeLines,
            tok_column := (if changeLines \<noteq> 0 then 0 else column (start (content_loc c)))\<rparr>)"

definition ContentStatement ::
  "(string \<Rightarrow> 'p visitor \<Rightarrow> 'x + 'p visitor) \<Rightarrow> ('p visitor \<Rightarrow> 'x + 'p visitor) \<Rightarrow>
   content \<Rightarrow> 'p visitor \<Rightarrow> 'x error + 'p visitor" where
  "ContentStatement tokenizePart flushData c s =
     (case tokenizePart (content_value c) (position_content c s) of
        Inl x \<Rightarrow> Inl (Thrown x)
      | Inr s1 \<Rightarrow>
          (case flushData s1 of
             Inl x \<Rightarrow> Inl (Thrown x)
           | Inr s2 \<Rightarrow> Inr s2))"

section \<open>Example subclasses and inputs\<close>

text \<open>
  The visitor is abstract. The examples below run it with the simplest subclasses: one whose
  \<^verbatim>\<open>acceptParam\<close> returns its argument, and ones whose \<^verbatim>\<open>acceptNode\<close> does nothing, leaves
  an element \<^verbatim>\<open>div\<close> open, or closes the element that is open.
\<close>

definition accept_unchanged :: "'a \<Rightarrow> 's \<Rightarrow> 'x + 'a \<times> 's" where
  "accept_unchanged a s = Inr (a, s)"

definition accept_node_idle :: "'n \<Rightarrow> 's \<Rightarrow> 'x + 's" where
  "accept_node_idle n s = Inr s"

definition div_element :: element where
  "div_element = \<lparr>el_id = 7, tag = ''div'',
     el_loc = \<lparr>start = \<lparr>line = 1, column = 0\<rparr>, finish = \<lparr>line = 1, column = 5\<rparr>\<rparr>\<rparr>"

definition accept_node_open :: "'n \<Rightarrow> 'p visitor \<Rightarrow> 'x + 'p visitor" where
  "accept_node_open n s = Inr (s\<lparr>elementStack := push div_element (elementStack s)\<rparr>)"

definition accept_node_close :: "'n \<Rightarrow> 'p visitor \<Rightarrow> 'x + 'p visitor" where
  "accept_node_close n s = Inr (s\<lparr>elementStack := tl (elementStack s)\<rparr>)"

definition initial_visitor :: "'p visitor" where
  "initial_visitor =
     \<lparr>tok_state = ''beforeData'', tok_line = 1, tok_column = 0, parentStack = [],
      elementStack = [], currentTag = \<lparr>tag_name = [], modifiers = [], attributes = []\<rparr>,
      currentAttribute = None, commentData = [], heap = []\<rparr>"

definition one_statement :: "unit raw_program" where
  "one_statement =
     \<lparr>body = [()], blockParams = [],
      program_loc = \<lparr>start = \<lparr>line = 1, column = 0\<rparr>, finish = \<lparr>line = 1, column = 9\<rparr>\<rparr>\<rparr>"

definition slash_path :: path where
  "slash_path =
     \<lparr>original = ''a/b'', data = False, parts = Some [''a'', ''b''], depth = 0,
      loc = \<lparr>start = \<lparr>line = 1, column = 2\<rparr>, finish = \<lparr>line = 1, column = 5\<rparr>\<rparr>\<rparr>"

definition root_visitor :: "unit visitor" where
  "root_visitor =
     \<lparr>tok_state = ''data'', tok_line = 1, tok_column = 0, parentStack = [0],
      elementStack = [], currentTag = \<lparr>tag_name = ''div'', modifiers = [], attributes = []\<rparr>,
      currentAttribute = Some \<lparr>attr_name = ''class'', attr_parts = [], isQuoted = True\<rparr>,
      commentData = ''note '',
      heap = [\<lparr>node_blockParams = [],
               node_loc = \<lparr>start = \<lparr>line = 1, column = 0\<rparr>, finish = \<lparr>line = 9, column = 0\<rparr>\<rparr>,
               children = []\<rparr>]\<rparr>"

definition if_block :: "(unit, unit) block" where
  "if_block =
     \<lparr>path = \<lparr>original = ''if'', data = False, parts = Some [''if''], depth = 0,
               loc = \<lparr>start = \<lparr>line = 1, column = 3\<rparr>, finish = \<lparr>line = 1, column = 5\<rparr>\<rparr>\<rparr>,
      params = Some [()], hash = None,
      program = Some \<lparr>body = [], blockParams = [],
        program_loc = \<lparr>start = \<lparr>line = 1, column = 9\<rparr>, finish = \<lparr>line = 1, column = 9\<rparr>\<rparr>\<rparr>,
      inverse_program = None,
      block_loc = \<lparr>start = \<lparr>line = 1, column = 0\<rparr>, finish = \<lparr>line = 1, column = 16\<rparr>\<rparr>\<rparr>"

definition if_source :: "(unit, unit) block \<Rightarrow> string" where
  "if_source b = ''#if x''"

definition foo_mustache :: "unit mustache" where
  "foo_mustache =
     \<lparr>path = \<lparr>original = ''foo'', data = False, parts = Some [''foo''], depth = 0,
               loc = \<lparr>start = \<lparr>line = 1, column = 7\<rparr>, finish = \<lparr>line = 1, column = 10\<rparr>\<rparr>\<rparr>,
      params = Some [], hash = None, escaped = True,
      mustache_loc = \<lparr>start = \<lparr>line = 1, column = 5\<rparr>, finish = \<lparr>line = 1, column = 12\<rparr>\<rparr>\<rparr>"

definition foo_source :: "unit mustache \<Rightarrow> string" where
  "foo_source m = ''foo''"

definition title_partial :: "unit partial" where
  "title_partial =
     \<lparr>partial_name = \<lparr>original = ''title'', data = False, parts = Some [''title''], depth = 0,
         loc = \<lparr>start = \<lparr>line = 2, column = 3\<rparr>, finish = \<lparr>line = 2, column = 8\<rparr>\<rparr>\<rparr>,
      partial_params = [], partial_hash = None, indent = [],
      partial_loc = \<lparr>start = \<lparr>line = 2, column = 0\<rparr>, finish = \<lparr>line = 2, column = 10\<rparr>\<rparr>\<rparr>"

definition two_newlines :: content where
  "two_newlines =
     \<lparr>content_original = [newline, newline], content_value = [newline],
      rightStripped = True, leftStripped = False,
      content_loc = \<lparr>start = \<lparr>line = 3, column = 9\<rparr>, finish = \<lparr>line = 5, column = 0\<rparr>\<rparr>\<rparr>"

text \<open>
  Inherited methods that only note that they were called: each adds one letter to the
  comment text, \<^verbatim>\<open>B\<close> for \<^verbatim>\<open>beginAttributeValue\<close> (\<^verbatim>\<open>b\<close> when asked for a quoted value),
  \<^verbatim>\<open>F\<close> for \<^verbatim>\<open>finishAttributeValue\<close>, \<^verbatim>\<open>M\<close> for \<^verbatim>\<open>appendModifier\<close>, \<^verbatim>\<open>P\<close> for
  \<^verbatim>\<open>pushMustache\<close> and \<^verbatim>\<open>C\<close> for \<^verbatim>\<open>appendChild\<close>.
\<close>

definition note_call :: "string \<Rightarrow> 'p visitor \<Rightarrow> 'p visitor" where
  "note_call letter s = s\<lparr>commentData := commentData s @ letter\<rparr>"

definition noting_handlers :: "('p, 'x) handlers" where
  "noting_handlers =
     \<lparr>h_appendChild = (\<lambda>stmt s. Inr (note_call ''C'' s)),
      h_appendToCommentData = (\<lambda>text s. note_call text s),
      h_appendModifier = (\<lambda>m s. note_call ''M'' s),
      h_beginAttributeValue = (\<lambda>quoted s. Inr (note_call (if quoted then ''b'' else ''B'') s)),
      h_finishAttributeValue = (\<lambda>s. Inr (note_call ''F'' s)),
      h_pushMustache = (\<lambda>m s. Inr (note_call ''P'' s))\<rparr>"

section \<open>Properties of the path validator\<close>

lemma sublist_skip: "sublist xs ys \<Longrightarrow> sublist xs (zs @ ys)"
  unfolding sublist_def by (metis append_assoc)

lemma sublist_here: "sublist xs (xs @ ys)"
  by simp

lemma message_distinct:
  "current_context_message t n \<noteq> parent_context_message t' n'"
  "current_context_message t n \<noteq> mixed_separator_message t' n'"
  "parent_context_message t n \<noteq> mixed_separator_message t' n'"
  by (simp_all add: current_context_message_def parent_context_message_def mixed_separator_message_def)

lemma message_mentions:
  "sublist t (current_context_message t n)"
  "sublist (show_nat n) (current_context_message t n)"
  "sublist t (parent_context_message t n)"
  "sublist (show_nat n) (parent_context_message t n)"
  "sublist t (mixed_separator_message t n)"
  "sublist (show_nat n) (mixed_separator_message t n)"
  unfolding current_context_message_def parent_context_message_def mixed_separator_message_def
  by (intro sublist_skip sublist_here)+

lemma slash_of_take2: "take 2 s = ''./'' \<Longrightarrow> CHR ''/'' \<in> set s"
  by (metis in_set_takeD list.set_intros(1,2))

lemma slash_of_take3: "take 3 s = ''../'' \<Longrightarrow> CHR ''/'' \<in> set s \<and> take 2 s \<noteq> ''./''"
  by (cases s; cases "tl s"; cases "tl (tl s)") (auto simp: numeral_3_eq_3 numeral_2_eq_2)

lemma PathExpression_parts: "PathExpression p = Inr q \<Longrightarrow> parts q = None \<and> depth q = 0 \<and> original q = original p \<and> data q = data p \<and> loc q = loc p"
  by (auto simp: PathExpression_def split: if_splits option.splits)

text \<open>
  C3. A path whose text begins with \<^verbatim>\<open>./\<close> is rejected with the first message, one that
  begins with \<^verbatim>\<open>../\<close> with the second, and any other path whose text has both a \<^verbatim>\<open>/\<close>
  and a \<^verbatim>\<open>.\<close> with the third: the three tests run in that order, so a text with both
  separators is always rejected, with the first message whose test it meets. The three
  messages differ from each other, and each contains the text of the path and the decimal
  line number of its location.
\<close>

theorem PathExpression_rejects:
  fixes p :: path
  defines "orig \<equiv> original p" and "n \<equiv> line (start (loc p))"
  shows
  "(take 2 orig = ''./'' \<longrightarrow>
      (PathExpression p :: 'x error + path) = Inl (Error (current_context_message orig n))) \<and>
   (take 3 orig = ''../'' \<longrightarrow>
      (PathExpression p :: 'x error + path) = Inl (Error (parent_context_message orig n))) \<and>
   (CHR ''/'' \<in> set orig \<and> CHR ''.'' \<in> set orig \<longrightarrow>
      (PathExpression p :: 'x error + path) =
        (if take 2 orig = ''./'' then Inl (Error (current_context_message orig n))
         else if take 3 orig = ''../'' then Inl (Error (parent_context_message orig n))
         else Inl (Error (mixed_separator_message orig n)))) \<and>
   current_context_message orig n \<noteq> parent_context_message orig n \<and>
   current_context_message orig n \<noteq> mixed_separator_message orig n \<and>
   parent_context_message orig n \<noteq> mixed_separator_message orig n \<and>
   sublist orig (current_context_message orig n) \<and>
   sublist (show_nat n) (current_context_message orig n) \<and>
   sublist orig (parent_context_message orig n) \<and>
   sublist (show_nat n) (parent_context_message orig n) \<and>
   sublist orig (mixed_separator_message orig n) \<and>
   sublist (show_nat n) (mixed_separator_message orig n)"
proof -
  have one: "take 2 orig = ''./'' \<Longrightarrow>
      (PathExpression p :: 'x error + path) = Inl (Error (current_context_message orig n))"
    using slash_of_take2 [of orig] by (simp add: PathExpression_def orig_def n_def)
  have two: "take 3 orig = ''../'' \<Longrightarrow>
      (PathExpression p :: 'x error + path) = Inl (Error (parent_context_message orig n))"
    using slash_of_take3 [of orig] by (simp add: PathExpression_def orig_def n_def)
  have three: "CHR ''/'' \<in> set orig \<Longrightarrow> CHR ''.'' \<in> set orig \<Longrightarrow>
      (PathExpression p :: 'x error + path) =
        (if take 2 orig = ''./'' then Inl (Error (current_context_message orig n))
         else if take 3 orig = ''../'' then Inl (Error (parent_context_message orig n))
         else Inl (Error (mixed_separator_message orig n)))"
    by (simp add: PathExpression_def orig_def n_def)
  show ?thesis
    using one two three message_distinct [where t = orig and n = n and t' = orig and n' = n]
      message_mentions [where t = orig and n = n]
    by blast
qed

theorem PathExpression_rejects_witness:
  "PathExpression \<lparr>original = ''./a'', data = False, parts = Some [''.'', ''a''], depth = 0,
       loc = \<lparr>start = \<lparr>line = 1, column = 2\<rparr>, finish = \<lparr>line = 1, column = 5\<rparr>\<rparr>\<rparr>
     = (Inl (Error (current_context_message ''./a'' 1)) :: unit error + path) \<and>
   PathExpression \<lparr>original = ''../a'', data = False, parts = Some [''a''], depth = 1,
       loc = \<lparr>start = \<lparr>line = 2, column = 2\<rparr>, finish = \<lparr>line = 2, column = 6\<rparr>\<rparr>\<rparr>
     = (Inl (Error (parent_context_message ''../a'' 2)) :: unit error + path) \<and>
   PathExpression \<lparr>original = ''a.b/c'', data = False, parts = Some [''a'', ''b'', ''c''], depth = 0,
       loc = \<lparr>start = \<lparr>line = 3, column = 2\<rparr>, finish = \<lparr>line = 3, column = 7\<rparr>\<rparr>\<rparr>
     = (Inl (Error (mixed_separator_message ''a.b/c'' 3)) :: unit error + path)"
  using PathExpression_rejects [where 'x = unit and p = "\<lparr>original = ''./a'', data = False, parts = Some [''.'', ''a''], depth = 0,
       loc = \<lparr>start = \<lparr>line = 1, column = 2\<rparr>, finish = \<lparr>line = 1, column = 5\<rparr>\<rparr>\<rparr>"]
    PathExpression_rejects [where 'x = unit and p = "\<lparr>original = ''../a'', data = False, parts = Some [''a''], depth = 1,
       loc = \<lparr>start = \<lparr>line = 2, column = 2\<rparr>, finish = \<lparr>line = 2, column = 6\<rparr>\<rparr>\<rparr>"]
    PathExpression_rejects [where 'x = unit and p = "\<lparr>original = ''a.b/c'', data = False, parts = Some [''a'', ''b'', ''c''], depth = 0,
       loc = \<lparr>start = \<lparr>line = 3, column = 2\<rparr>, finish = \<lparr>line = 3, column = 7\<rparr>\<rparr>\<rparr>"]
  by simp

text \<open>
  C1. A path whose text has a \<^verbatim>\<open>/\<close> and no \<^verbatim>\<open>.\<close> should come back with the single segment
  made by joining its segments with \<^verbatim>\<open>/\<close>. The function computes that list into a variable
  of the inner block and returns the outer one: for the text \<^verbatim>\<open>a/b\<close> with the segments
  \<^verbatim>\<open>a\<close> and \<^verbatim>\<open>b\<close> the result has depth 0 and no segment list at all.
\<close>

theorem PathExpression_drops_parts:
  "PathExpression \<lparr>original = ''a/b'', data = False, parts = Some [''a'', ''b''], depth = 0,
       loc = \<lparr>start = \<lparr>line = 1, column = 2\<rparr>, finish = \<lparr>line = 1, column = 5\<rparr>\<rparr>\<rparr>
     = (Inr \<lparr>original = ''a/b'', data = False, parts = None, depth = 0,
       loc = \<lparr>start = \<lparr>line = 1, column = 2\<rparr>, finish = \<lparr>line = 1, column = 5\<rparr>\<rparr>\<rparr> :: unit error + path)"
  by (simp add: PathExpression_def)

section \<open>Properties of the call normalizer\<close>

text \<open>
  C9. Normalizing a call that is already normalized should give it back unchanged. With a
  subclass whose \<^verbatim>\<open>acceptParam\<close> returns its argument, the call with the path \<^verbatim>\<open>a/b\<close> is
  normalized to a call whose path has no segment list; normalizing that result again reads
  \<^verbatim>\<open>path.parts.join\<close> on \<^verbatim>\<open>undefined\<close> and fails. A call whose path already has the single
  segment \<^verbatim>\<open>a/b\<close> does not come back unchanged either: its segment list is lost.
\<close>

theorem acceptCall_not_idempotent:
  "acceptCall accept_unchanged accept_unchanged
     \<lparr>path = slash_path, params = Some [()], hash = None\<rparr> ()
   = (Inr (\<lparr>path = slash_path\<lparr>parts := None\<rparr>, params = Some [()],
            hash = Some \<lparr>pairs = [], hash_loc = None\<rparr>\<rparr>, ()) :: unit error + unit call \<times> unit) \<and>
   acceptCall accept_unchanged accept_unchanged
     \<lparr>path = slash_path\<lparr>parts := None\<rparr>, params = Some [()],
      hash = Some \<lparr>pairs = [], hash_loc = None\<rparr>\<rparr> ()
   = (Inl TypeError :: unit error + unit call \<times> unit) \<and>
   acceptCall accept_unchanged accept_unchanged
     \<lparr>path = slash_path\<lparr>parts := Some [''a/b'']\<rparr>, params = Some [()],
      hash = Some \<lparr>pairs = [], hash_loc = None\<rparr>\<rparr> ()
   = (Inr (\<lparr>path = slash_path\<lparr>parts := None\<rparr>, params = Some [()],
            hash = Some \<lparr>pairs = [], hash_loc = None\<rparr>\<rparr>, ()) :: unit error + unit call \<times> unit)"
  by (simp add: acceptCall_def PathExpression_def accept_unchanged_def slash_path_def)

section \<open>Properties of scopes\<close>

lemma Program_never_pops:
  assumes "body raw \<noteq> []" and "Program acceptNode raw s = Inr (node, s')"
  shows "node = length (heap s) \<and>
    forEach acceptNode (body raw)
      ((snd (hbs_program (raw\<lparr>body := []\<rparr>) s))\<lparr>parentStack := node # parentStack s\<rparr>) = Inr s'"
  using assms
  by (auto simp: Program_def hbs_program_def push_def Let_def split: sum.splits option.splits if_splits)

lemma unclosed_mentions:
  "sublist t (unclosed_element_message t n)"
  "sublist (show_nat n) (unclosed_element_message t n)"
  unfolding unclosed_element_message_def
  by (intro sublist_skip sublist_here)+

text \<open>
  C2. The parent stack should be as deep when \<^verbatim>\<open>Program\<close> returns as it was when
  \<^verbatim>\<open>Program\<close> was entered. \<^verbatim>\<open>Program\<close> pushes the scope and never pops it: with a
  subclass whose \<^verbatim>\<open>acceptNode\<close> does nothing, a scope of one statement entered with an empty
  parent stack returns with the scope still on the stack.
\<close>

theorem Program_leaves_scope_on_stack:
  "parentStack (initial_visitor :: unit visitor) = [] \<and>
   Program accept_node_idle one_statement (initial_visitor :: unit visitor)
   = (Inr (0, initial_visitor
            \<lparr>parentStack := [0],
             heap := [\<lparr>node_blockParams = [], node_loc = program_loc one_statement, children = []\<rparr>]\<rparr>)
      :: unit error + addr \<times> unit visitor)"
  by (simp add: Program_def hbs_program_def accept_node_idle_def one_statement_def
      initial_visitor_def push_def current_def)

text \<open>
  What the check after the traversal does when an element is open then: for a scope with at
  least one statement whose body is traversed without a throw, \<^verbatim>\<open>Program\<close> returns the
  scope node when the top of the element stack has the identity it had before the
  traversal, and throws the error whose message contains the tag and the line of the open
  element when that element is another one.
\<close>

lemma Program_checks_open_element:
  assumes "body raw \<noteq> []"
    and "hbs_program (raw\<lparr>body := []\<rparr>) s = (node, s1)"
    and "forEach acceptNode (body raw) (s1\<lparr>parentStack := push node (parentStack s1)\<rparr>) = Inr s3"
  shows "(map_option el_id (current (elementStack s3)) = map_option el_id (current (elementStack s)) \<longrightarrow>
            Program acceptNode raw s = Inr (node, s3)) \<and>
         (\<forall>e. current (elementStack s3) = Some e \<and>
              map_option el_id (current (elementStack s)) \<noteq> Some (el_id e) \<longrightarrow>
            Program acceptNode raw s =
              Inl (Error (unclosed_element_message (tag e) (line (start (el_loc e))))) \<and>
            sublist (tag e) (unclosed_element_message (tag e) (line (start (el_loc e)))) \<and>
            sublist (show_nat (line (start (el_loc e))))
              (unclosed_element_message (tag e) (line (start (el_loc e)))))"
proof -
  have top: "elementStack s1 = elementStack s"
    using assms(2) by (auto simp: hbs_program_def)
  show ?thesis
    using assms top unclosed_mentions
    by (auto simp: Program_def Let_def)
qed

text \<open>
  C4. When the top of the element stack after the traversal is not the one read before it,
  \<^verbatim>\<open>Program\<close> should throw the error that names the tag and the opening line of the
  element left open. \<^verbatim>\<open>Program\<close> enters that \<^verbatim>\<open>throw\<close> and builds the message from
  \<^verbatim>\<open>newTopNode\<close>, which is \<^verbatim>\<open>null\<close> when the element that was open at entry has been
  closed inside the scope and no element is open: with \<^verbatim>\<open>div\<close> open at entry and a body
  that closes it, \<^verbatim>\<open>Program\<close> ends in a TypeError and not in the error about an unclosed
  element.
\<close>

theorem Program_closed_element:
  "current (elementStack ((initial_visitor :: unit visitor)\<lparr>elementStack := [div_element]\<rparr>))
     = Some div_element \<and>
   forEach (accept_node_close :: unit \<Rightarrow> unit visitor \<Rightarrow> unit + unit visitor) (body one_statement)
     ((initial_visitor :: unit visitor)
        \<lparr>elementStack := [div_element], parentStack := [0],
         heap := [\<lparr>node_blockParams = [], node_loc = program_loc one_statement, children = []\<rparr>]\<rparr>)
     = Inr ((initial_visitor :: unit visitor)
        \<lparr>elementStack := [], parentStack := [0],
         heap := [\<lparr>node_blockParams = [], node_loc = program_loc one_statement, children = []\<rparr>]\<rparr>) \<and>
   Program accept_node_close one_statement
     ((initial_visitor :: unit visitor)\<lparr>elementStack := [div_element]\<rparr>)
     = (Inl TypeError :: unit error + addr \<times> unit visitor)"
  by (simp add: Program_def hbs_program_def accept_node_close_def one_statement_def
      initial_visitor_def push_def current_def)

section \<open>Properties of blocks\<close>

text \<open>
  The two cases of \<^verbatim>\<open>BlockStatement\<close> that end before the call is normalized: in a state
  other than \<^verbatim>\<open>comment\<close>, \<^verbatim>\<open>data\<close> and \<^verbatim>\<open>beforeData\<close> it throws; in the state
  \<^verbatim>\<open>comment\<close> it adds the source text of the block between \<^verbatim>\<open>{{\<close> and \<^verbatim>\<open>}}\<close> to the text
  of the open comment and returns no node.
\<close>

lemma BlockStatement_guard:
  "(tok_state s \<notin> {''comment'', ''data'', ''beforeData''} \<longrightarrow>
      BlockStatement acceptNode acceptParam acceptHash sourceForMustache blk s
        = Inl (Error block_context_message)) \<and>
   (tok_state s = ''comment'' \<longrightarrow>
      BlockStatement acceptNode acceptParam acceptHash sourceForMustache blk s
        = Inr (None, s\<lparr>commentData := commentData s @ ''{{'' @ sourceForMustache blk @ ''}}''\<rparr>))"
  by (simp add: BlockStatement_def appendToCommentData_def)

text \<open>
  C5. In the states \<^verbatim>\<open>data\<close> and \<^verbatim>\<open>beforeData\<close> a block should be normalized, have its
  scopes built and be appended to the current parent, the parent it is met in. The scope
  built for \<^verbatim>\<open>block.program\<close> is still on the parent stack when the block is appended: met
  in the state \<^verbatim>\<open>data\<close> under the parent at address 0, a block with one statement in its
  scope gets the scope at address 1, and is appended as the child of that scope, its own;
  the parent at address 0 has no child.
\<close>

theorem BlockStatement_into_own_scope:
  "tok_state root_visitor = ''data'' \<and>
   currentParent root_visitor = Some 0 \<and>
   BlockStatement accept_node_idle accept_unchanged accept_unchanged if_source
       (if_block\<lparr>program := Some one_statement\<rparr>) root_visitor
     = (Inr (Some \<lparr>bn_path = (path if_block)\<lparr>parts := None\<rparr>, bn_params = Some [()],
                   bn_hash = Some \<lparr>pairs = [], hash_loc = None\<rparr>,
                   bn_program = Some 1, bn_inverse = None, bn_loc = block_loc if_block\<rparr>,
             root_visitor
               \<lparr>parentStack := [1, 0],
                heap :=
                  [\<lparr>node_blockParams = [],
                    node_loc = \<lparr>start = \<lparr>line = 1, column = 0\<rparr>, finish = \<lparr>line = 9, column = 0\<rparr>\<rparr>,
                    children = []\<rparr>,
                   \<lparr>node_blockParams = [], node_loc = program_loc one_statement,
                    children =
                      [BlockNode
                         \<lparr>bn_path = (path if_block)\<lparr>parts := None\<rparr>, bn_params = Some [()],
                          bn_hash = Some \<lparr>pairs = [], hash_loc = None\<rparr>,
                          bn_program = Some 1, bn_inverse = None,
                          bn_loc = block_loc if_block\<rparr>]\<rparr>]\<rparr>)
        :: unit error + unit block_node option \<times> unit visitor)"
  by (simp add: BlockStatement_def acceptCall_def PathExpression_def accept_unchanged_def
      Program_opt_def Program_def hbs_program_def accept_node_idle_def appendChild_def
      currentParent_def current_def push_def if_block_def one_statement_def root_visitor_def
      Let_def)

section \<open>Properties of mustaches\<close>

text \<open>
  C6. A mustache visited in the state \<^verbatim>\<open>tagName\<close>, whose call is normalized without a throw
  and with the tokenizer still in that state: the normalized mustache is returned, it is the
  last modifier of the open tag, no scope node has a new child, the parent stack is as it was,
  and the tokenizer is in the state \<^verbatim>\<open>beforeAttributeName\<close>.
\<close>

theorem MustacheStatement_tagName:
  assumes "tok_state s = ''tagName''"
    and "acceptCall acceptParam acceptHash rawMustache s = Inr (c, s1)"
    and "tok_state s1 = ''tagName''"
  shows "\<exists>s'. MustacheStatement acceptParam acceptHash sourceForMustache rawMustache s
            = Inr (Some (hbs_mustache c), s') \<and>
          s' = s1\<lparr>currentTag := (currentTag s1)
                    \<lparr>modifiers := modifiers (currentTag s1) @ [hbs_mustache c]\<rparr>,
                  tok_state := ''beforeAttributeName''\<rparr> \<and>
          modifiers (currentTag s') = modifiers (currentTag s1) @ [hbs_mustache c] \<and>
          heap s' = heap s1 \<and> parentStack s' = parentStack s1 \<and>
          tok_state s' = ''beforeAttributeName''"
  using assms
  by (simp add: MustacheStatement_def MustacheStatement_with_def TokenizerEventHandlers_def
      appendModifier_def Let_def)

theorem MustacheStatement_tagName_witness:
  "\<exists>s'. MustacheStatement accept_unchanged accept_unchanged foo_source foo_mustache
            (root_visitor\<lparr>tok_state := ''tagName''\<rparr>)
          = (Inr (Some (foo_mustache\<lparr>path := (path foo_mustache)\<lparr>parts := None\<rparr>,
                         hash := Some \<lparr>pairs = [], hash_loc = None\<rparr>\<rparr>), s')
             :: unit error + unit mustache option \<times> unit visitor) \<and>
        modifiers (currentTag s') =
          [foo_mustache\<lparr>path := (path foo_mustache)\<lparr>parts := None\<rparr>,
             hash := Some \<lparr>pairs = [], hash_loc = None\<rparr>\<rparr>] \<and>
        heap s' = heap root_visitor \<and> parentStack s' = [0] \<and>
        tok_state s' = ''beforeAttributeName''"
proof -
  let ?s = "root_visitor\<lparr>tok_state := ''tagName''\<rparr>"
  let ?c = "foo_mustache\<lparr>path := (path foo_mustache)\<lparr>parts := None\<rparr>,
      hash := Some \<lparr>pairs = [], hash_loc = None\<rparr>\<rparr>"
  have h1: "tok_state ?s = ''tagName''"
    by simp
  have h2: "acceptCall accept_unchanged accept_unchanged foo_mustache ?s
      = (Inr (?c, ?s) :: unit error + unit mustache \<times> unit visitor)"
    by (simp add: acceptCall_def PathExpression_def accept_unchanged_def foo_mustache_def)
  show ?thesis
    using MustacheStatement_tagName [OF h1 h2 h1, of foo_source]
    by (simp add: hbs_mustache_def root_visitor_def)
qed

text \<open>
  C7. A mustache visited in the state \<^verbatim>\<open>attributeName\<close> or \<^verbatim>\<open>afterAttributeName\<close>, whose
  call is normalized without a throw and without a change of the tokenizer's state. Whatever
  the inherited methods do, \<^verbatim>\<open>MustacheStatement\<close> calls them in this order: it begins an
  attribute value, asking for an unquoted one, finalizes it at once, so that the value is
  empty, only then attaches the mustache as a modifier, and last puts the tokenizer in the
  state \<^verbatim>\<open>beforeAttributeName\<close>; a throw of the first or the second call ends the visit.
  With the inherited methods as modelled and an attribute in progress, that attribute
  becomes the last attribute of the open tag, unquoted and without value, no attribute is
  open any more, the mustache is the last modifier of the tag and is returned, and no scope
  node has a new child.
\<close>

theorem MustacheStatement_attributeName:
  assumes "tok_state s = ''attributeName'' \<or> tok_state s = ''afterAttributeName''"
    and "acceptCall acceptParam acceptHash rawMustache s = Inr (c, s1)"
    and "tok_state s1 = tok_state s"
  shows "MustacheStatement_with H acceptParam acceptHash sourceForMustache rawMustache s
           = (case h_beginAttributeValue H False s1 of
                Inl e \<Rightarrow> Inl e
              | Inr s2 \<Rightarrow>
                  (case h_finishAttributeValue H s2 of
                     Inl e \<Rightarrow> Inl e
                   | Inr s3 \<Rightarrow>
                       Inr (Some (hbs_mustache c),
                            (h_appendModifier H (hbs_mustache c) s3)
                              \<lparr>tok_state := ''beforeAttributeName''\<rparr>))) \<and>
         (\<forall>a. currentAttribute s1 = Some a \<longrightarrow>
            (\<exists>s'. MustacheStatement acceptParam acceptHash sourceForMustache rawMustache s
                    = Inr (Some (hbs_mustache c), s') \<and>
                  s' = s1\<lparr>currentTag := (currentTag s1)
                            \<lparr>attributes := attributes (currentTag s1) @
                                [a\<lparr>attr_parts := [], isQuoted := False\<rparr>],
                              modifiers := modifiers (currentTag s1) @ [hbs_mustache c]\<rparr>,
                          currentAttribute := None,
                          tok_state := ''beforeAttributeName''\<rparr> \<and>
                  attributes (currentTag s') =
                    attributes (currentTag s1) @ [a\<lparr>attr_parts := [], isQuoted := False\<rparr>] \<and>
                  modifiers (currentTag s') = modifiers (currentTag s1) @ [hbs_mustache c] \<and>
                  currentAttribute s' = None \<and>
                  heap s' = heap s1 \<and> parentStack s' = parentStack s1 \<and>
                  tok_state s' = ''beforeAttributeName''))"
proof -
  have st: "tok_state s \<noteq> ''comment''" "tok_state s1 \<noteq> ''tagName''"
    "tok_state s1 \<noteq> ''beforeAttributeName''"
    "tok_state s1 = ''attributeName'' \<or> tok_state s1 = ''afterAttributeName''"
    using assms(1,3) by auto
  have order: "MustacheStatement_with H acceptParam acceptHash sourceForMustache rawMustache s
           = (case h_beginAttributeValue H False s1 of
                Inl e \<Rightarrow> Inl e
              | Inr s2 \<Rightarrow>
                  (case h_finishAttributeValue H s2 of
                     Inl e \<Rightarrow> Inl e
                   | Inr s3 \<Rightarrow>
                       Inr (Some (hbs_mustache c),
                            (h_appendModifier H (hbs_mustache c) s3)
                              \<lparr>tok_state := ''beforeAttributeName''\<rparr>)))" for H
    using assms(2) st by (simp add: MustacheStatement_with_def Let_def)
  have modelled: "MustacheStatement acceptParam acceptHash sourceForMustache rawMustache s
        = Inr (Some (hbs_mustache c),
            s1\<lparr>currentTag := (currentTag s1)
                  \<lparr>attributes := attributes (currentTag s1) @
                      [a\<lparr>attr_parts := [], isQuoted := False\<rparr>],
                    modifiers := modifiers (currentTag s1) @ [hbs_mustache c]\<rparr>,
                currentAttribute := None,
                tok_state := ''beforeAttributeName''\<rparr>)"
    if "currentAttribute s1 = Some a" for a
    using that
    by (simp add: MustacheStatement_def order TokenizerEventHandlers_def
        beginAttributeValue_def finishAttributeValue_def appendModifier_def)
  show ?thesis
    using order [of H] modelled by simp
qed

theorem MustacheStatement_attributeName_witness:
  "MustacheStatement_with noting_handlers accept_unchanged accept_unchanged foo_source foo_mustache
       (root_visitor\<lparr>tok_state := ''attributeName''\<rparr>)
     = (Inr (Some (foo_mustache\<lparr>path := (path foo_mustache)\<lparr>parts := None\<rparr>,
                     hash := Some \<lparr>pairs = [], hash_loc = None\<rparr>\<rparr>),
             root_visitor\<lparr>tok_state := ''beforeAttributeName'', commentData := ''note BFM''\<rparr>)
        :: unit error + unit mustache option \<times> unit visitor) \<and>
   (\<exists>s'. MustacheStatement accept_unchanged accept_unchanged foo_source foo_mustache
            (root_visitor\<lparr>tok_state := ''attributeName''\<rparr>)
          = (Inr (Some (foo_mustache\<lparr>path := (path foo_mustache)\<lparr>parts := None\<rparr>,
                         hash := Some \<lparr>pairs = [], hash_loc = None\<rparr>\<rparr>), s')
             :: unit error + unit mustache option \<times> unit visitor) \<and>
        attributes (currentTag s') = [\<lparr>attr_name = ''class'', attr_parts = [], isQuoted = False\<rparr>] \<and>
        modifiers (currentTag s') =
          [foo_mustache\<lparr>path := (path foo_mustache)\<lparr>parts := None\<rparr>,
             hash := Some \<lparr>pairs = [], hash_loc = None\<rparr>\<rparr>] \<and>
        currentAttribute s' = None \<and>
        heap s' = heap root_visitor \<and> parentStack s' = [0] \<and>
        tok_state s' = ''beforeAttributeName'')"
proof -
  let ?s = "root_visitor\<lparr>tok_state := ''attributeName''\<rparr>"
  let ?c = "foo_mustache\<lparr>path := (path foo_mustache)\<lparr>parts := None\<rparr>,
      hash := Some \<lparr>pairs = [], hash_loc = None\<rparr>\<rparr>"
  have h1: "tok_state ?s = ''attributeName'' \<or> tok_state ?s = ''afterAttributeName''"
    by simp
  have h2: "acceptCall accept_unchanged accept_unchanged foo_mustache ?s
      = (Inr (?c, ?s) :: unit error + unit mustache \<times> unit visitor)"
    by (simp add: acceptCall_def PathExpression_def accept_unchanged_def foo_mustache_def)
  have h3: "tok_state ?s = tok_state ?s"
    by simp
  have h4: "currentAttribute ?s = Some \<lparr>attr_name = ''class'', attr_parts = [], isQuoted = True\<rparr>"
    by (simp add: root_visitor_def)
  have noted: "MustacheStatement_with noting_handlers accept_unchanged accept_unchanged foo_source
       foo_mustache ?s
     = (Inr (Some ?c, root_visitor\<lparr>tok_state := ''beforeAttributeName'', commentData := ''note BFM''\<rparr>)
        :: unit error + unit mustache option \<times> unit visitor)"
    using MustacheStatement_attributeName [OF h1 h2 h3, of noting_handlers foo_source]
    by (simp add: noting_handlers_def note_call_def hbs_mustache_def root_visitor_def)
  have closed: "\<exists>s'. MustacheStatement accept_unchanged accept_unchanged foo_source foo_mustache ?s
          = (Inr (Some ?c, s') :: unit error + unit mustache option \<times> unit visitor) \<and>
        attributes (currentTag s') = [\<lparr>attr_name = ''class'', attr_parts = [], isQuoted = False\<rparr>] \<and>
        modifiers (currentTag s') = [?c] \<and>
        currentAttribute s' = None \<and>
        heap s' = heap root_visitor \<and> parentStack s' = [0] \<and>
        tok_state s' = ''beforeAttributeName''"
    using MustacheStatement_attributeName [OF h1 h2 h3, of TokenizerEventHandlers foo_source] h4
    by (simp add: hbs_mustache_def root_visitor_def)
  show ?thesis
    using noted closed by blast
qed

section \<open>Properties of comments\<close>

text \<open>
  C10. \<^verbatim>\<open>CommentStatement\<close> returns the source-comment node of its argument and leaves
  the whole state as it was: the scope nodes and their children, the parent stack, the
  element stack and the tokenizer's state. Where a parent is current, its children are the
  same after a comment, whereas \<^verbatim>\<open>PartialStatement\<close> in the same state adds its node as the
  last child.
\<close>

theorem CommentStatement_frame:
  "fst (CommentStatement c s) = SourceComment c \<and>
   snd (CommentStatement c s) = s \<and>
   heap (snd (CommentStatement c s)) = heap s \<and>
   parentStack (snd (CommentStatement c s)) = parentStack s \<and>
   elementStack (snd (CommentStatement c s)) = elementStack s \<and>
   tok_state (snd (CommentStatement c s)) = tok_state s \<and>
   (\<forall>a. currentParent s = Some a \<and> a < length (heap s) \<longrightarrow>
      children (heap (snd (CommentStatement c s)) ! a) = children (heap s ! a) \<and>
      (\<exists>s'. PartialStatement prt s = Inr (prt, s') \<and>
            children (heap s' ! a) = children (heap s ! a) @ [PartialNode prt]))"
  by (simp add: CommentStatement_def PartialStatement_def appendChild_def)

theorem CommentStatement_frame_witness:
  "currentParent root_visitor = Some 0 \<and> 0 < length (heap root_visitor) \<and>
   children (heap (snd (CommentStatement
       \<lparr>comment_value = ''hello'',
        comment_loc = \<lparr>start = \<lparr>line = 2, column = 0\<rparr>, finish = \<lparr>line = 2, column = 9\<rparr>\<rparr>\<rparr>
       root_visitor)) ! 0) = [] \<and>
   (\<exists>s'. PartialStatement title_partial root_visitor
            = (Inr (title_partial, s') :: unit error + unit partial \<times> unit visitor) \<and>
         children (heap s' ! 0) = [PartialNode title_partial])"
proof -
  have h: "currentParent root_visitor = Some 0 \<and> 0 < length (heap root_visitor)"
    by (simp add: currentParent_def current_def root_visitor_def)
  have e: "children (heap root_visitor ! 0) = []"
    by (simp add: root_visitor_def)
  show ?thesis
    using CommentStatement_frame [where 'b = unit and s = root_visitor and prt = title_partial and c = "\<lparr>comment_value = ''hello'',
        comment_loc = \<lparr>start = \<lparr>line = 2, column = 0\<rparr>, finish = \<lparr>line = 2, column = 9\<rparr>\<rparr>\<rparr>"] h e
    by simp
qed

section \<open>Properties of content\<close>

text \<open>
  The number that \<^verbatim>\<open>leadingNewlineDifference\<close> computes: all the newlines of the original text
  when the retained text is empty; otherwise the newlines before the first place where the
  retained text occurs in the original. When the removed prefix does not contain the first
  character of the retained text, that place is the end of the prefix.
\<close>

lemma split_Nil: "sep \<noteq> [] \<Longrightarrow> split sep [] = [[]]"
  by (subst split.simps) simp

lemma split_match:
  "sep \<noteq> [] \<Longrightarrow> str \<noteq> [] \<Longrightarrow> prefix sep str \<Longrightarrow>
   split sep str = [] # split sep (drop (length sep) str)"
  by (subst split.simps) simp

lemma split_step:
  "sep \<noteq> [] \<Longrightarrow> \<not> prefix sep (x # xs) \<Longrightarrow>
   split sep (x # xs) = (case split sep xs of [] \<Rightarrow> [[x]] | w # ws \<Rightarrow> (x # w) # ws)"
  by (subst split.simps) (simp split: list.splits)

lemma split_not_Nil:
  assumes "sep \<noteq> []"
  shows "split sep str \<noteq> []"
proof (cases str)
  case Nil
  then show ?thesis using assms by (simp add: split_Nil)
next
  case (Cons x xs)
  then show ?thesis
    using assms split_match [of sep str] split_step [of sep x xs]
    by (cases "prefix sep str") (auto split: list.splits)
qed

lemma length_split_char: "length (split [c] str) = Suc (count_list str c)"
proof (induction str)
  case Nil
  show ?case by (simp add: split_Nil)
next
  case (Cons x xs)
  show ?case
  proof (cases "x = c")
    case True
    then have "split [c] (x # xs) = [] # split [c] xs"
      using split_match [of "[c]" "x # xs"] by simp
    with Cons True show ?thesis by simp
  next
    case False
    then have "split [c] (x # xs) = (case split [c] xs of [] \<Rightarrow> [[x]] | w # ws \<Rightarrow> (x # w) # ws)"
      using split_step [of "[c]" x xs] by simp
    with Cons False split_not_Nil [of "[c]" xs] show ?thesis
      by (auto split: list.splits)
  qed
qed

lemma hd_split_before:
  assumes "val \<noteq> []" and "hd val \<notin> set pre"
  shows "hd (split val (pre @ val @ post)) = pre"
  using assms(2)
proof (induction pre)
  case Nil
  have "prefix val (val @ post)" by simp
  then show ?case
    using split_match [of val "val @ post"] assms(1) by simp
next
  case (Cons x xs)
  have "\<not> prefix val (x # xs @ val @ post)"
    using Cons.prems assms(1) by (cases val) auto
  then have "split val ((x # xs) @ val @ post) =
      (case split val (xs @ val @ post) of [] \<Rightarrow> [[x]] | w # ws \<Rightarrow> (x # w) # ws)"
    using split_step [of val x "xs @ val @ post"] assms(1) by simp
  moreover have "hd (split val (xs @ val @ post)) = xs"
    using Cons by simp
  ultimately show ?case
    using split_not_Nil [of val "xs @ val @ post"] assms(1)
    by (auto split: list.splits)
qed

lemma leadingNewlineDifference_empty:
  "leadingNewlineDifference orig [] = count_list orig newline"
  by (simp add: leadingNewlineDifference_def length_split_char)

lemma leadingNewlineDifference_before:
  "val \<noteq> [] \<Longrightarrow> hd val \<notin> set pre \<Longrightarrow>
   leadingNewlineDifference (pre @ val @ post) val = count_list pre newline"
  by (simp add: leadingNewlineDifference_def hd_split_before length_split_char)

text \<open>
  C8. After a content whose leading whitespace was removed, the tokenizer's line should be
  the starting line plus the number of newlines removed, and the column 0 when there is one.
  The count looks for the first occurrence of the retained text, not for the place where it
  was retained. For the original text of two newlines whose first newline was removed, the
  retained newline already occurs at the start of the original: the count is 0 instead of 1,
  the line stays 3 and the column stays 9.
\<close>

theorem ContentStatement_repeated_newline:
  "content_original two_newlines = [newline] @ content_value two_newlines \<and>
   leadingNewlineDifference (content_original two_newlines) (content_value two_newlines) = 0 \<and>
   ContentStatement accept_node_idle Inr two_newlines (initial_visitor :: unit visitor)
     = (Inr (initial_visitor\<lparr>tok_line := 3, tok_column := 9\<rparr>) :: unit error + unit visitor)"
proof -
  have d: "leadingNewlineDifference [newline, newline] [newline] = 0"
    by (simp add: leadingNewlineDifference_def split_match split_Nil)
  show ?thesis
    by (simp add: d ContentStatement_def position_content_def two_newlines_def
        accept_node_idle_def)
qed

end
